theory Spec2Isabelle
  imports Complex_Main "HOL-Library.Char_ord" "HOL-Library.List_Lexorder"
begin

section \<open>The booking table (database.py)\<close>

text \<open>
  One row of the table \<^verbatim>\<open>bookings\<close> created by \<^verbatim>\<open>Database.init_db\<close>. The column
  \<^verbatim>\<open>id\<close> is called \<open>booking_id\<close> here, the name the methods of \<^verbatim>\<open>Database\<close> give to
  their parameter. TEXT columns are strings, compared code point by code point (what
  both SQLite's BINARY collation and Python's \<^verbatim>\<open>str\<close> comparison do on the ASCII texts
  the bot stores); the two reminder flags are the INTEGER columns of the schema, read
  by the scheduler through Python truthiness. The timestamps are the texts
  \<^verbatim>\<open>CURRENT_TIMESTAMP\<close> produces.
\<close>

record booking =
  booking_id :: int
  user_id :: int
  username :: string
  full_name :: string
  booking_type :: string
  selected_date :: string
  selected_time :: string
  status :: string
  admin_message_id :: "int option"
  reminder_day_sent :: int
  reminder_hour_sent :: int
  created_at :: string
  updated_at :: string

text \<open>
  The database: the rows in rowid order, and the high-water mark that
  \<^verbatim>\<open>AUTOINCREMENT\<close> keeps in \<^verbatim>\<open>sqlite_sequence\<close> (the largest id ever handed out, so
  that the id of a deleted row is not reused).
\<close>

record database =
  rows :: "booking list"
  seq :: int

definition empty_db :: database where
  "empty_db = \<lparr>rows = [], seq = 0\<rparr>"

definition lastrowid :: "database \<Rightarrow> int" where
  "lastrowid db = max (seq db) (fold max (map booking_id (rows db)) 0) + 1"

text \<open>
  \<^verbatim>\<open>create_booking\<close>: INSERT with status \<^verbatim>\<open>'pending'\<close>; the columns the statement does
  not name take their defaults. \<open>ts\<close> is the value of \<^verbatim>\<open>CURRENT_TIMESTAMP\<close>. Returns
  \<^verbatim>\<open>cursor.lastrowid\<close> and the new database.
\<close>

definition create_booking ::
  "database \<Rightarrow> string \<Rightarrow> int \<Rightarrow> string \<Rightarrow> string \<Rightarrow> string \<Rightarrow> string \<Rightarrow> string
     \<Rightarrow> int \<times> database" where
  "create_booking db ts uid uname fname btype date time =
     (let i = lastrowid db;
          row = \<lparr>booking_id = i, user_id = uid, username = uname, full_name = fname,
                 booking_type = btype, selected_date = date, selected_time = time,
                 status = ''pending'', admin_message_id = None,
                 reminder_day_sent = 0, reminder_hour_sent = 0,
                 created_at = ts, updated_at = ts\<rparr>
      in (i, \<lparr>rows = rows db @ [row], seq = i\<rparr>))"

text \<open>
  ORDER BY: a stable insertion sort of the rows under the comparison \<open>le\<close> of the
  statement's sort keys. Rows that tie on every key stay in rowid order (SQL itself
  leaves the order of ties open).
\<close>

fun insert_by :: "('a \<Rightarrow> 'a \<Rightarrow> bool) \<Rightarrow> 'a \<Rightarrow> 'a list \<Rightarrow> 'a list" where
  "insert_by le x [] = [x]"
| "insert_by le x (y # ys) = (if le x y then x # y # ys else y # insert_by le x ys)"

definition order_by :: "('a \<Rightarrow> 'a \<Rightarrow> bool) \<Rightarrow> 'a list \<Rightarrow> 'a list" where
  "order_by le xs = foldr (insert_by le) xs []"

definition date_time_asc :: "booking \<Rightarrow> booking \<Rightarrow> bool" where
  "date_time_asc a b \<longleftrightarrow>
     selected_date a < selected_date b
     \<or> (selected_date a = selected_date b \<and> selected_time a \<le> selected_time b)"

definition created_desc :: "booking \<Rightarrow> booking \<Rightarrow> bool" where
  "created_desc a b \<longleftrightarrow> created_at b \<le> created_at a"

definition get_pending_bookings :: "database \<Rightarrow> booking list" where
  "get_pending_bookings db =
     order_by created_desc (filter (\<lambda>b. status b = ''pending'') (rows db))"

definition get_confirmed_bookings :: "database \<Rightarrow> booking list" where
  "get_confirmed_bookings db =
     order_by date_time_asc (filter (\<lambda>b. status b = ''confirmed'') (rows db))"

text \<open>The CASE expression of \<^verbatim>\<open>get_all_bookings\<close>.\<close>

definition status_priority :: "string \<Rightarrow> nat" where
  "status_priority s =
     (if s = ''pending'' then 1
      else if s = ''confirmed'' then 2
      else if s = ''rejected'' then 3
      else 4)"

definition priority_created_desc :: "booking \<Rightarrow> booking \<Rightarrow> bool" where
  "priority_created_desc a b \<longleftrightarrow>
     status_priority (status a) < status_priority (status b)
     \<or> (status_priority (status a) = status_priority (status b)
         \<and> created_at b \<le> created_at a)"

definition get_all_bookings :: "database \<Rightarrow> booking list" where
  "get_all_bookings db = order_by priority_created_desc (rows db)"

text \<open>The condition \<^verbatim>\<open>status IN ('pending', 'confirmed')\<close>.\<close>

definition status_active :: "string \<Rightarrow> bool" where
  "status_active s \<longleftrightarrow> s = ''pending'' \<or> s = ''confirmed''"

definition get_bookings_by_date_range :: "database \<Rightarrow> string \<Rightarrow> string \<Rightarrow> booking list" where
  "get_bookings_by_date_range db start_date end_date =
     order_by date_time_asc
       (filter (\<lambda>b. start_date \<le> selected_date b \<and> selected_date b \<le> end_date
                     \<and> status_active (status b)) (rows db))"

definition get_booked_slots :: "database \<Rightarrow> string \<Rightarrow> string list" where
  "get_booked_slots db date =
     map selected_time
       (filter (\<lambda>b. selected_date b = date \<and> status_active (status b)) (rows db))"

definition is_slot_available :: "database \<Rightarrow> string \<Rightarrow> string \<Rightarrow> bool" where
  "is_slot_available db date time =
     (let count = length (filter (\<lambda>b. selected_date b = date \<and> selected_time b = time
                                       \<and> status_active (status b)) (rows db))
      in count = 0)"

definition get_booking :: "database \<Rightarrow> int \<Rightarrow> booking option" where
  "get_booking db i = find (\<lambda>b. booking_id b = i) (rows db)"

text \<open>
  \<^verbatim>\<open>update_booking_status\<close>: \<^verbatim>\<open>if admin_message_id:\<close> is false for \<^verbatim>\<open>None\<close> and for 0, and
  then the column keeps its value.
\<close>

definition update_booking_status ::
  "database \<Rightarrow> string \<Rightarrow> int \<Rightarrow> string \<Rightarrow> int option \<Rightarrow> database" where
  "update_booking_status db ts i s msg =
     (if msg \<noteq> None \<and> msg \<noteq> Some 0
      then db\<lparr>rows := map (\<lambda>b. if booking_id b = i
                                then b\<lparr>status := s, admin_message_id := msg, updated_at := ts\<rparr>
                                else b) (rows db)\<rparr>
      else db\<lparr>rows := map (\<lambda>b. if booking_id b = i
                                then b\<lparr>status := s, updated_at := ts\<rparr>
                                else b) (rows db)\<rparr>)"

definition delete_booking :: "database \<Rightarrow> int \<Rightarrow> bool \<times> database" where
  "delete_booking db i =
     (let rowcount = length (filter (\<lambda>b. booking_id b = i) (rows db))
      in (rowcount > 0, db\<lparr>rows := filter (\<lambda>b. booking_id b \<noteq> i) (rows db)\<rparr>))"

definition get_user_bookings :: "database \<Rightarrow> int \<Rightarrow> booking list" where
  "get_user_bookings db uid =
     order_by created_desc (filter (\<lambda>b. user_id b = uid) (rows db))"

definition mark_reminder_sent :: "database \<Rightarrow> int \<Rightarrow> string \<Rightarrow> database" where
  "mark_reminder_sent db i reminder_type =
     (if reminder_type = ''day''
      then db\<lparr>rows := map (\<lambda>b. if booking_id b = i then b\<lparr>reminder_day_sent := 1\<rparr> else b)
                          (rows db)\<rparr>
      else if reminder_type = ''hour''
      then db\<lparr>rows := map (\<lambda>b. if booking_id b = i then b\<lparr>reminder_hour_sent := 1\<rparr> else b)
                          (rows db)\<rparr>
      else db)"

section \<open>Sequences of store operations\<close>

text \<open>
  The four methods of \<^verbatim>\<open>Database\<close> that write to the table, as a datatype of calls, so
  that properties of the form "until the booking is rejected or deleted" can be stated
  over every sequence of calls. The reminder scan writes only through
  \<^verbatim>\<open>mark_reminder_sent\<close>.
\<close>

datatype store_op =
    CreateBooking string int string string string string string
  | UpdateBookingStatus string int string "int option"
  | DeleteBooking int
  | MarkReminderSent int string

fun apply_op :: "database \<Rightarrow> store_op \<Rightarrow> database" where
  "apply_op db (CreateBooking ts uid uname fname btype date time) =
     snd (create_booking db ts uid uname fname btype date time)"
| "apply_op db (UpdateBookingStatus ts i s msg) = update_booking_status db ts i s msg"
| "apply_op db (DeleteBooking i) = snd (delete_booking db i)"
| "apply_op db (MarkReminderSent i k) = mark_reminder_sent db i k"

definition run_ops :: "database \<Rightarrow> store_op list \<Rightarrow> database" where
  "run_ops db ops = fold (\<lambda>op d. apply_op d op) ops db"

text \<open>
  The calls that take booking \<open>i\<close> out of its slot: deleting it, or giving it a status
  that is neither \<^verbatim>\<open>'pending'\<close> nor \<^verbatim>\<open>'confirmed'\<close> (the bot itself only ever writes
  \<^verbatim>\<open>'confirmed'\<close> and \<^verbatim>\<open>'rejected'\<close>).
\<close>

fun releases :: "int \<Rightarrow> store_op \<Rightarrow> bool" where
  "releases i (UpdateBookingStatus ts j s msg) = (j = i \<and> \<not> status_active s)"
| "releases i (DeleteBooking j) = (j = i)"
| "releases i _ = False"

text \<open>The WHERE clause of \<^verbatim>\<open>is_slot_available\<close>, and a booking \<open>i\<close> that meets it.\<close>

definition occupies :: "booking \<Rightarrow> string \<Rightarrow> string \<Rightarrow> bool" where
  "occupies b d t \<longleftrightarrow> selected_date b = d \<and> selected_time b = t \<and> status_active (status b)"

definition holds_slot :: "database \<Rightarrow> int \<Rightarrow> string \<Rightarrow> string \<Rightarrow> bool" where
  "holds_slot db i d t \<longleftrightarrow> (\<exists>b \<in> set (rows db). booking_id b = i \<and> occupies b d t)"


section \<open>Python library functions the bot calls\<close>

datatype error = ValueError | IndexError

text \<open>
  \<^verbatim>\<open>str.split(sep)\<close> with a one-character separator: every occurrence splits, and the
  empty string gives one empty part.
\<close>

fun str_split :: "char \<Rightarrow> string \<Rightarrow> string list" where
  "str_split sep [] = [[]]"
| "str_split sep (c # cs) =
     (if c = sep then [] # str_split sep cs
      else (case str_split sep cs of
              [] \<Rightarrow> [[c]]
            | p # ps \<Rightarrow> (c # p) # ps))"

text \<open>
  Whitespace as \<^verbatim>\<open>str.strip()\<close> and \<^verbatim>\<open>int()\<close> see it, on the code points 0 to 255: tab to
  carriage return, the four separators 28 to 31, the space, and NEL and the no-break
  space.
\<close>

definition is_space :: "char \<Rightarrow> bool" where
  "is_space c \<longleftrightarrow>
     (let n = (of_char c :: nat)
      in (9 \<le> n \<and> n \<le> 13) \<or> (28 \<le> n \<and> n \<le> 32) \<or> n = 133 \<or> n = 160)"

definition str_strip :: "string \<Rightarrow> string" where
  "str_strip s = rev (dropWhile is_space (rev (dropWhile is_space s)))"

definition is_digit :: "char \<Rightarrow> bool" where
  "is_digit c \<longleftrightarrow> (let n = (of_char c :: nat) in 48 \<le> n \<and> n \<le> 57)"

definition digit_value :: "char \<Rightarrow> int" where
  "digit_value c = int (of_char c) - 48"

text \<open>
  The digits of a decimal literal after its first digit, with the value read so far: a
  digit, or one underscore that a digit follows.
\<close>

fun more_digits :: "string \<Rightarrow> int \<Rightarrow> int option" where
  "more_digits [] acc = Some acc"
| "more_digits [c] acc = (if is_digit c then Some (acc * 10 + digit_value c) else None)"
| "more_digits (c # d # cs) acc =
     (if is_digit c then more_digits (d # cs) (acc * 10 + digit_value c)
      else if c = CHR ''_'' \<and> is_digit d then more_digits cs (acc * 10 + digit_value d)
      else None)"

text \<open>
  \<^verbatim>\<open>int(s)\<close> for a string: surrounding whitespace is dropped, one sign is allowed, then
  decimal digits, single underscores between them; anything else raises
  \<^verbatim>\<open>ValueError\<close>.
\<close>

definition py_int :: "string \<Rightarrow> error + int" where
  "py_int s =
     (let t = str_strip s;
          negative = (t \<noteq> [] \<and> hd t = CHR ''-'');
          u = (if t \<noteq> [] \<and> (hd t = CHR ''-'' \<or> hd t = CHR ''+'') then tl t else t)
      in case u of
           [] \<Rightarrow> Inl ValueError
         | c # cs \<Rightarrow>
             if is_digit c
             then (case more_digits cs (digit_value c) of
                     None \<Rightarrow> Inl ValueError
                   | Some n \<Rightarrow> Inr (if negative then - n else n))
             else Inl ValueError)"

subsection \<open>datetime\<close>

record datetime =
  year :: int
  month :: int
  day :: int
  hour :: int
  minute :: int
  second :: int
  microsecond :: int

definition is_leap :: "int \<Rightarrow> bool" where
  "is_leap y \<longleftrightarrow> y mod 4 = 0 \<and> (y mod 100 \<noteq> 0 \<or> y mod 400 = 0)"

definition days_in_month :: "int \<Rightarrow> int \<Rightarrow> int" where
  "days_in_month y m =
     (if m = 2 then (if is_leap y then 29 else 28)
      else if m = 4 \<or> m = 6 \<or> m = 9 \<or> m = 11 then 30
      else 31)"

definition days_before_year :: "int \<Rightarrow> int" where
  "days_before_year y = (y - 1) * 365 + (y - 1) div 4 - (y - 1) div 100 + (y - 1) div 400"

definition days_before_month :: "int \<Rightarrow> int \<Rightarrow> int" where
  "days_before_month y m = sum_list (map (days_in_month y) [1..m - 1])"

definition ymd2ord :: "int \<Rightarrow> int \<Rightarrow> int \<Rightarrow> int" where
  "ymd2ord y m d = days_before_year y + days_before_month y m + d"

text \<open>
  The constructor \<^verbatim>\<open>datetime(year, month, day, hour, minute)\<close>: it raises \<^verbatim>\<open>ValueError\<close>
  when a field is out of range; seconds and microseconds default to 0.
\<close>

definition datetime_new :: "int \<Rightarrow> int \<Rightarrow> int \<Rightarrow> int \<Rightarrow> int \<Rightarrow> error + datetime" where
  "datetime_new y m d h mi =
     (if 1 \<le> y \<and> y \<le> 9999 \<and> 1 \<le> m \<and> m \<le> 12 \<and> 1 \<le> d \<and> d \<le> days_in_month y m
         \<and> 0 \<le> h \<and> h \<le> 23 \<and> 0 \<le> mi \<and> mi \<le> 59
      then Inr \<lparr>year = y, month = m, day = d, hour = h, minute = mi,
                 second = 0, microsecond = 0\<rparr>
      else Inl ValueError)"

text \<open>What \<^verbatim>\<open>datetime.now()\<close> can return.\<close>

definition valid_datetime :: "datetime \<Rightarrow> bool" where
  "valid_datetime t \<longleftrightarrow>
     1 \<le> year t \<and> year t \<le> 9999 \<and> 1 \<le> month t \<and> month t \<le> 12
     \<and> 1 \<le> day t \<and> day t \<le> days_in_month (year t) (month t)
     \<and> 0 \<le> hour t \<and> hour t \<le> 23 \<and> 0 \<le> minute t \<and> minute t \<le> 59
     \<and> 0 \<le> second t \<and> second t \<le> 59 \<and> 0 \<le> microsecond t \<and> microsecond t \<le> 999999"

text \<open>Microseconds since the start of day 1 of year 1, the scale on which datetimes subtract.\<close>

definition to_microseconds :: "datetime \<Rightarrow> int" where
  "to_microseconds t =
     (((ymd2ord (year t) (month t) (day t) * 24 + hour t) * 60 + minute t) * 60 + second t)
       * 1000000 + microsecond t"

text \<open>
  \<^verbatim>\<open>(a - b).total_seconds() / 3600\<close>. The source computes it in double precision; the
  model keeps the exact quotient. Every comparison the scheduler makes comes out the
  same: the difference is a whole number of microseconds, far below \<open>2^53\<close>, each
  division rounds to the nearest double and so is monotone, at 23, 25, 0.9 and 1.1
  hours it yields exactly the double that the literal in the source denotes, and one
  microsecond away from these it yields a double that differs from that one (the doubles
  there are far less than a microsecond apart).
\<close>

definition hours_between :: "datetime \<Rightarrow> datetime \<Rightarrow> rat" where
  "hours_between a b = of_int (to_microseconds a - to_microseconds b) / 1000000 / 3600"

text \<open>\<^verbatim>\<open>strftime("%d.%m")\<close>: day and month, two digits each.\<close>

definition two_digits :: "int \<Rightarrow> string" where
  "two_digits n = [''0123456789'' ! nat (n div 10), ''0123456789'' ! nat (n mod 10)]"

definition strftime_dm :: "datetime \<Rightarrow> string" where
  "strftime_dm t = two_digits (day t) @ ''.'' @ two_digits (month t)"

section \<open>The reminder scheduler (bot.py)\<close>

text \<open>
  The chat transport is outside the program: \<open>send_message env chat kind i\<close> tells whether
  \<^verbatim>\<open>bot.send_message\<close> returns (True) or raises (False) when the reminder of that kind
  about booking \<open>i\<close> goes to chat \<open>chat\<close>. \<open>ADMIN_ID\<close> is the environment variable,
  absent or a string.
\<close>

datatype reminder_kind = Day | Hour | Admin

datatype outcome = Delivered | Failed

text \<open>
  What one pass leaves behind: \<open>Reminder k i r\<close> for a send of kind \<open>k\<close> about booking \<open>i\<close>
  that was delivered, or that raised inside the sender and was logged there;
  \<open>ReminderError i\<close> for an exception caught by the loop's own handler.
\<close>

datatype event = Reminder reminder_kind int outcome | ReminderError int

record env =
  ADMIN_ID :: "string option"
  send_message :: "int \<Rightarrow> reminder_kind \<Rightarrow> int \<Rightarrow> bool"

definition send_day_reminder :: "env \<Rightarrow> booking \<Rightarrow> event" where
  "send_day_reminder e b =
     (if send_message e (user_id b) Day (booking_id b) then Reminder Day (booking_id b) Delivered
      else Reminder Day (booking_id b) Failed)"

definition send_hour_reminder :: "env \<Rightarrow> booking \<Rightarrow> event" where
  "send_hour_reminder e b =
     (if send_message e (user_id b) Hour (booking_id b) then Reminder Hour (booking_id b) Delivered
      else Reminder Hour (booking_id b) Failed)"

text \<open>
  \<^verbatim>\<open>send_admin_reminder\<close> returns at once when \<^verbatim>\<open>ADMIN_ID\<close> is unset or empty;
  \<^verbatim>\<open>int(ADMIN_ID)\<close> is evaluated inside its \<^verbatim>\<open>try\<close>.
\<close>

definition send_admin_reminder :: "env \<Rightarrow> booking \<Rightarrow> event list" where
  "send_admin_reminder e b =
     (case ADMIN_ID e of
        None \<Rightarrow> []
      | Some a \<Rightarrow>
          if a = [] then []
          else (case py_int a of
                  Inl err \<Rightarrow> [Reminder Admin (booking_id b) Failed]
                | Inr chat \<Rightarrow>
                    if send_message e chat Admin (booking_id b)
                    then [Reminder Admin (booking_id b) Delivered]
                    else [Reminder Admin (booking_id b) Failed]))"

text \<open>The four \<^verbatim>\<open>int(...)\<close> calls and the \<^verbatim>\<open>datetime(...)\<close> call of the loop body.\<close>

definition booking_datetime :: "datetime \<Rightarrow> string list \<Rightarrow> string list \<Rightarrow> error + datetime" where
  "booking_datetime now date_parts time_parts =
     (case py_int (date_parts ! 1) of Inl err \<Rightarrow> Inl err | Inr m \<Rightarrow>
     (case py_int (date_parts ! 0) of Inl err \<Rightarrow> Inl err | Inr d \<Rightarrow>
     (case py_int (time_parts ! 0) of Inl err \<Rightarrow> Inl err | Inr h \<Rightarrow>
     (case py_int (time_parts ! 1) of Inl err \<Rightarrow> Inl err | Inr mi \<Rightarrow>
        datetime_new (year now) m d h mi))))"

text \<open>
  The body of \<^verbatim>\<open>for booking in all_bookings\<close>: \<open>booking\<close> is the row as the pass read it,
  \<open>db\<close> the database as it is now. The flags are read from \<open>booking\<close>, the marks go to
  \<open>db\<close>.
\<close>

definition remind_booking :: "env \<Rightarrow> datetime \<Rightarrow> database \<Rightarrow> booking \<Rightarrow> database \<times> event list" where
  "remind_booking e now db booking =
     (let current_date = strftime_dm now;
          booking_date = selected_date booking;
          booking_time = selected_time booking
      in if booking_date < current_date then (db, [])
         else
           let date_parts = str_split (CHR ''.'') booking_date;
               time_parts = str_split (CHR '':'') booking_time
           in if length date_parts \<noteq> 2 \<or> length time_parts \<noteq> 2 then (db, [])
              else
                case booking_datetime now date_parts time_parts of
                  Inl err \<Rightarrow> (db, [ReminderError (booking_id booking)])
                | Inr dt \<Rightarrow>
                    let hours_diff = hours_between dt now;
                        customer =
                          (if 23 \<le> hours_diff \<and> hours_diff \<le> 25
                              \<and> reminder_day_sent booking = 0
                           then (mark_reminder_sent db (booking_id booking) ''day'',
                                 [send_day_reminder e booking])
                           else if 9 / 10 \<le> hours_diff \<and> hours_diff \<le> 11 / 10
                              \<and> reminder_hour_sent booking = 0
                           then (mark_reminder_sent db (booking_id booking) ''hour'',
                                 [send_hour_reminder e booking])
                           else (db, []));
                        admin =
                          (if 9 / 10 \<le> hours_diff \<and> hours_diff \<le> 11 / 10
                           then send_admin_reminder e booking else [])
                    in (fst customer, snd customer @ admin))"

text \<open>The \<^verbatim>\<open>for\<close> loop over the confirmed bookings, and one pass of \<^verbatim>\<open>while True\<close>.\<close>

fun scan_bookings :: "env \<Rightarrow> datetime \<Rightarrow> booking list \<Rightarrow> database \<Rightarrow> database \<times> event list" where
  "scan_bookings e now [] db = (db, [])"
| "scan_bookings e now (b # bs) db =
     (let r1 = remind_booking e now db b;
          r2 = scan_bookings e now bs (fst r1)
      in (fst r2, snd r1 @ snd r2))"

definition check_reminders_tick :: "env \<Rightarrow> datetime \<Rightarrow> database \<Rightarrow> database \<times> event list" where
  "check_reminders_tick e now db = scan_bookings e now (get_confirmed_bookings db) db"

text \<open>
  \<^verbatim>\<open>check_reminders\<close> never returns; its first passes, one for each entry of the list
  (what the transport does during the pass, and the clock reading at its start), with
  the events of each pass.
\<close>

fun check_reminders :: "(env \<times> datetime) list \<Rightarrow> database \<Rightarrow> database \<times> event list list" where
  "check_reminders [] db = (db, [])"
| "check_reminders ((e, now) # later) db =
     (let r1 = check_reminders_tick e now db;
          r2 = check_reminders later (fst r1)
      in (fst r2, snd r1 # snd r2))"

section \<open>Notions used in the statements about the scheduler\<close>

text \<open>
  The hours from \<open>now\<close> to the booking's date and time in the year of \<open>now\<close>, when the
  two texts split into two parts each and these parse into a date that exists.
\<close>

definition hours_until :: "datetime \<Rightarrow> booking \<Rightarrow> rat option" where
  "hours_until now b =
     (let date_parts = str_split (CHR ''.'') (selected_date b);
          time_parts = str_split (CHR '':'') (selected_time b)
      in if length date_parts \<noteq> 2 \<or> length time_parts \<noteq> 2 then None
         else (case booking_datetime now date_parts time_parts of
                 Inl err \<Rightarrow> None
               | Inr dt \<Rightarrow> Some (hours_between dt now)))"

definition about :: "int \<Rightarrow> event \<Rightarrow> bool" where
  "about i ev \<longleftrightarrow> (case ev of Reminder k j r \<Rightarrow> j = i | ReminderError j \<Rightarrow> j = i)"

text \<open>How many sends of kind \<open>k\<close> about booking \<open>i\<close> a pass made, delivered or not.\<close>

definition attempts :: "reminder_kind \<Rightarrow> int \<Rightarrow> event list \<Rightarrow> nat" where
  "attempts k i evs =
     length (filter (\<lambda>ev. case ev of Reminder k' j r \<Rightarrow> k' = k \<and> j = i
                                     | ReminderError j \<Rightarrow> False) evs)"

text \<open>
  The two customer reminders as the specification words them: the booking is not skipped
  for its date, its hours lie in the window, and its flag is not set.
\<close>

definition day_due :: "datetime \<Rightarrow> booking \<Rightarrow> bool" where
  "day_due now b \<longleftrightarrow>
     \<not> selected_date b < strftime_dm now
     \<and> (case hours_until now b of None \<Rightarrow> False | Some h \<Rightarrow> 23 \<le> h \<and> h \<le> 25)
     \<and> reminder_day_sent b = 0"

definition hour_due :: "datetime \<Rightarrow> booking \<Rightarrow> bool" where
  "hour_due now b \<longleftrightarrow>
     \<not> selected_date b < strftime_dm now
     \<and> (case hours_until now b of None \<Rightarrow> False | Some h \<Rightarrow> 9 / 10 \<le> h \<and> h \<le> 11 / 10)
     \<and> reminder_hour_sent b = 0"

definition admin_due :: "datetime \<Rightarrow> booking \<Rightarrow> bool" where
  "admin_due now b \<longleftrightarrow>
     \<not> selected_date b < strftime_dm now
     \<and> (case hours_until now b of None \<Rightarrow> False | Some h \<Rightarrow> 9 / 10 \<le> h \<and> h \<le> 11 / 10)"

text \<open>What processing booking \<open>b\<close> does to a row \<open>r\<close> of the table.\<close>

definition marked :: "datetime \<Rightarrow> booking \<Rightarrow> booking \<Rightarrow> booking" where
  "marked now b r =
     (if booking_id r = booking_id b
      then (if day_due now b then r\<lparr>reminder_day_sent := 1\<rparr>
            else if hour_due now b then r\<lparr>reminder_hour_sent := 1\<rparr>
            else r)
      else r)"

text \<open>The events booking \<open>b\<close> gives rise to in a pass.\<close>

definition reminder_events :: "env \<Rightarrow> datetime \<Rightarrow> booking \<Rightarrow> event list" where
  "reminder_events e now b = snd (remind_booking e now empty_db b)"

text \<open>Two rows that differ at most in the two reminder flags.\<close>

definition flags_only :: "booking \<Rightarrow> booking \<Rightarrow> bool" where
  "flags_only r r' \<longleftrightarrow>
     booking_id r' = booking_id r \<and> user_id r' = user_id r \<and> username r' = username r
     \<and> full_name r' = full_name r \<and> booking_type r' = booking_type r
     \<and> selected_date r' = selected_date r \<and> selected_time r' = selected_time r
     \<and> status r' = status r \<and> admin_message_id r' = admin_message_id r
     \<and> created_at r' = created_at r \<and> updated_at r' = updated_at r"

section \<open>The booking handlers (bot.py)\<close>

text \<open>
  What a handler asks the chat transport to do, by kind, with the values the text
  carries. The first five belong to \<^verbatim>\<open>process_booking\<close>: the three
  \<^verbatim>\<open>callback.answer\<close> calls (slot taken, created, error), \<^verbatim>\<open>callback.message.delete\<close>,
  \<^verbatim>\<open>callback.message.answer\<close> with date, time and type, and \<^verbatim>\<open>bot.send_message\<close> to the
  admin chat about the new booking id. The rest belong to \<^verbatim>\<open>process_admin_time\<close>: the
  \<^verbatim>\<open>message.answer\<close> calls (wrong format, slot taken with date and time, created with the
  booking id, user notified, user not notified, error) and \<^verbatim>\<open>bot.send_message\<close> to the
  user about the booking id.
\<close>

datatype action =
    AnswerSlotTaken
  | AnswerCreated
  | AnswerError
  | DeleteMessage
  | MessageCreated string string string
  | NotifyAdmin int int
  | MessageBadTime
  | MessageSlotTaken string string
  | MessageManualCreated int
  | NotifyUser int int
  | MessageUserNotified
  | MessageUserNotifyFailed
  | MessageError

text \<open>
  Each of these calls may raise. \<open>ok a\<close> tells whether call \<open>a\<close> returns. \<open>perform\<close> makes
  the calls in order up to the first that raises, and returns the calls made and
  whether all returned.
\<close>

fun perform :: "(action \<Rightarrow> bool) \<Rightarrow> action list \<Rightarrow> action list \<times> bool" where
  "perform ok [] = ([], True)"
| "perform ok (a # as) =
     (if ok a then (let r = perform ok as in (a # fst r, snd r)) else ([a], False))"

text \<open>
  The update a handler receives. \<^verbatim>\<open>callback.from_user.username\<close> may be absent;
  \<^verbatim>\<open>callback.data\<close> starts with \<^verbatim>\<open>date_\<close>, which the handler's filter checks.
\<close>

record callback =
  cb_user_id :: int
  cb_username :: "string option"
  cb_full_name :: string
  cb_data :: string

text \<open>
  The data the FSM storage holds for the conversation when a handler runs. A handler
  returns \<open>Some\<close> of it when the conversation is left as it was and \<open>None\<close> after
  \<^verbatim>\<open>state.clear()\<close>. \<^verbatim>\<open>process_admin_time\<close> is registered for the state
  \<^verbatim>\<open>waiting_for_time\<close>, which only \<^verbatim>\<open>process_admin_date\<close> enters, after it stored
  \<^verbatim>\<open>selected_date\<close>; the other keys may be absent.
\<close>

record customer_data =
  stored_booking_type :: "string option"

record admin_data =
  data_user_id :: "int option"
  data_username :: "string option"
  data_full_name :: "string option"
  data_booking_type :: "string option"
  data_selected_date :: string

text \<open>\<^verbatim>\<open>data.get(key, default)\<close>, and \<^verbatim>\<open>value or default\<close> for a text that may be absent.\<close>

definition dict_get :: "'a option \<Rightarrow> 'a \<Rightarrow> 'a" where
  "dict_get v d = (case v of None \<Rightarrow> d | Some x \<Rightarrow> x)"

definition str_or :: "string option \<Rightarrow> string \<Rightarrow> string" where
  "str_or v d = (case v of None \<Rightarrow> d | Some x \<Rightarrow> if x = [] then d else x)"

text \<open>
  The three Cyrillic default texts of the source, as their UTF-8 bytes. They are only
  stored, never measured or compared.
\<close>

definition default_username :: string where
  "default_username = [CHR 0xD0, CHR 0xBD, CHR 0xD0, CHR 0xB5, CHR 0xD1, CHR 0x82]"

definition default_full_name :: string where
  "default_full_name = [CHR 0xD0, CHR 0x98, CHR 0xD0, CHR 0xBC, CHR 0xD1, CHR 0x8F]"

definition default_manual_name :: string where
  "default_manual_name =
     [CHR 0xD0, CHR 0xA0, CHR 0xD1, CHR 0x83, CHR 0xD1, CHR 0x87, CHR 0xD0, CHR 0xBD,
      CHR 0xD0, CHR 0xB0, CHR 0xD1, CHR 0x8F, CHR 0x20, CHR 0xD0, CHR 0xB7, CHR 0xD0,
      CHR 0xB0, CHR 0xD0, CHR 0xBF, CHR 0xD0, CHR 0xB8, CHR 0xD1, CHR 0x81, CHR 0xD1,
      CHR 0x8C]"

text \<open>
  The \<^verbatim>\<open>except\<close> branch of \<^verbatim>\<open>process_booking\<close>, entered after the calls \<open>done\<close>: it answers
  with the error alert and then clears the conversation; when the alert itself raises,
  the handler ends there.
\<close>

definition booking_failed ::
  "(action \<Rightarrow> bool) \<Rightarrow> database \<Rightarrow> customer_data option \<Rightarrow> action list
     \<Rightarrow> database \<times> customer_data option \<times> action list" where
  "booking_failed ok db st done =
     (db, if ok AnswerError then None else st, done @ [AnswerError])"

text \<open>The admin notification of \<^verbatim>\<open>process_booking\<close>: none when \<^verbatim>\<open>ADMIN_ID\<close> is unset or empty.\<close>

definition admin_notice :: "env \<Rightarrow> int \<Rightarrow> error + action list" where
  "admin_notice e i =
     (case ADMIN_ID e of
        None \<Rightarrow> Inr []
      | Some a \<Rightarrow>
          if a = [] then Inr []
          else (case py_int a of
                  Inl err \<Rightarrow> Inl err
                | Inr chat \<Rightarrow> Inr [NotifyAdmin chat i]))"

text \<open>
  \<^verbatim>\<open>process_booking\<close>, the customer's choice of a slot. \<open>ts\<close> is \<^verbatim>\<open>CURRENT_TIMESTAMP\<close> at
  the INSERT. \<^verbatim>\<open>parts[1]\<close> or \<^verbatim>\<open>parts[2]\<close> raises \<^verbatim>\<open>IndexError\<close> when the callback data has
  fewer than three parts.
\<close>

definition process_booking ::
  "env \<Rightarrow> (action \<Rightarrow> bool) \<Rightarrow> string \<Rightarrow> database \<Rightarrow> customer_data \<Rightarrow> callback
     \<Rightarrow> database \<times> customer_data option \<times> action list" where
  "process_booking e ok ts db st cb =
     (let booking_type = dict_get (stored_booking_type st) ''individual'';
          parts = str_split (CHR ''_'') (cb_data cb)
      in if length parts < 3 then booking_failed ok db (Some st) []
         else
           let day = take 2 (parts ! 1);
               month = drop 2 (parts ! 1);
               hour = parts ! 2;
               selected_date = day @ ''.'' @ month;
               selected_time = hour @ '':00''
           in if \<not> is_slot_available db selected_date selected_time
              then (if ok AnswerSlotTaken then (db, Some st, [AnswerSlotTaken])
                    else booking_failed ok db (Some st) [AnswerSlotTaken])
              else
                let created = create_booking db ts (cb_user_id cb)
                                (str_or (cb_username cb) default_username)
                                (str_or (Some (cb_full_name cb)) default_full_name)
                                booking_type selected_date selected_time;
                    booking_id = fst created;
                    db1 = snd created
                in (case admin_notice e booking_id of
                      Inl err \<Rightarrow> booking_failed ok db1 (Some st) []
                    | Inr notice \<Rightarrow>
                        let sent = perform ok notice
                        in if \<not> snd sent then booking_failed ok db1 (Some st) (fst sent)
                           else
                             let rest = perform ok
                                   [AnswerCreated, DeleteMessage,
                                    MessageCreated selected_date selected_time booking_type]
                             in if snd rest then (db1, None, fst sent @ fst rest)
                                else booking_failed ok db1 None (fst sent @ fst rest)))"

text \<open>
  The outer \<^verbatim>\<open>except\<close> branch of \<^verbatim>\<open>process_admin_time\<close> with the \<^verbatim>\<open>state.clear()\<close> that
  follows the \<^verbatim>\<open>try\<close> statement.
\<close>

definition admin_failed ::
  "(action \<Rightarrow> bool) \<Rightarrow> database \<Rightarrow> admin_data \<Rightarrow> action list
     \<Rightarrow> database \<times> admin_data option \<times> action list" where
  "admin_failed ok db st done =
     (db, if ok MessageError then None else Some st, done @ [MessageError])"

text \<open>
  \<^verbatim>\<open>process_admin_time\<close>, the last step of the admin's manual entry. \<open>text\<close> is
  \<^verbatim>\<open>message.text\<close>, absent for a message without text (then \<^verbatim>\<open>.strip()\<close> raises); \<open>ts\<close>
  and \<open>ts'\<close> are \<^verbatim>\<open>CURRENT_TIMESTAMP\<close> at the INSERT and at the UPDATE. A wrong format
  returns from inside the \<^verbatim>\<open>try\<close>, so the conversation is kept.
\<close>

definition process_admin_time ::
  "(action \<Rightarrow> bool) \<Rightarrow> string \<Rightarrow> string \<Rightarrow> database \<Rightarrow> admin_data \<Rightarrow> string option
     \<Rightarrow> database \<times> admin_data option \<times> action list" where
  "process_admin_time ok ts ts' db st text =
     (case text of
        None \<Rightarrow> admin_failed ok db st []
      | Some t \<Rightarrow>
          let time_str = str_strip t
          in if length time_str \<noteq> 5
             then (if ok MessageBadTime then (db, Some st, [MessageBadTime])
                   else admin_failed ok db st [MessageBadTime])
             else if time_str ! 2 \<noteq> CHR '':''
             then (if ok MessageBadTime then (db, Some st, [MessageBadTime])
                   else admin_failed ok db st [MessageBadTime])
             else
               let user_id = dict_get (data_user_id st) 0;
                   username = dict_get (data_username st) ''manual'';
                   full_name = dict_get (data_full_name st) default_manual_name;
                   booking_type = dict_get (data_booking_type st) ''individual'';
                   selected_date = data_selected_date st
               in if \<not> is_slot_available db selected_date time_str
                  then (if ok (MessageSlotTaken selected_date time_str)
                        then (db, None, [MessageSlotTaken selected_date time_str])
                        else admin_failed ok db st [MessageSlotTaken selected_date time_str])
                  else
                    let created = create_booking db ts user_id username full_name
                                    booking_type selected_date time_str;
                        booking_id = fst created;
                        db2 = update_booking_status (snd created) ts' booking_id
                                ''confirmed'' None
                    in if \<not> ok (MessageManualCreated booking_id)
                       then admin_failed ok db2 st [MessageManualCreated booking_id]
                       else if user_id \<noteq> 0
                       then
                         (let inner = perform ok
                                [NotifyUser user_id booking_id, MessageUserNotified]
                          in if snd inner
                             then (db2, None, MessageManualCreated booking_id # fst inner)
                             else if ok MessageUserNotifyFailed
                             then (db2, None, MessageManualCreated booking_id # fst inner
                                                @ [MessageUserNotifyFailed])
                             else admin_failed ok db2 st
                                    (MessageManualCreated booking_id # fst inner
                                       @ [MessageUserNotifyFailed]))
                       else (db2, None, [MessageManualCreated booking_id]))"

section \<open>Concrete data for the witnesses\<close>

definition demo_row :: booking where
  "demo_row = \<lparr>booking_id = 1, user_id = 7, username = ''anna'', full_name = ''Anna'',
               booking_type = ''individual'', selected_date = ''15.03'', selected_time = ''18:00'',
               status = ''pending'', admin_message_id = None,
               reminder_day_sent = 0, reminder_hour_sent = 0,
               created_at = ''2026-03-01 10:00:00'', updated_at = ''2026-03-01 10:00:00''\<rparr>"


definition three_ops :: "store_op list" where
  "three_ops =
     [CreateBooking ''2026-03-01 10:00:00'' 7 ''anna'' ''Anna'' ''individual'' ''15.03'' ''18:00'',
      UpdateBookingStatus ''2026-03-01 10:05:00'' 1 ''rejected'' None,
      CreateBooking ''2026-03-01 10:10:00'' 8 ''boris'' ''Boris'' ''group'' ''15.03'' ''18:00'',
      CreateBooking ''2026-03-01 10:20:00'' 9 ''vera'' ''Vera'' ''date'' ''16.03'' ''15:00'',
      UpdateBookingStatus ''2026-03-01 10:30:00'' 3 ''confirmed'' None]"

text \<open>
  Two confirmed bookings for 15 March, made through the store; a clock in March 2026; a
  transport that delivers everything, and one that fails for chat 8.
\<close>

definition confirmed_ops :: "store_op list" where
  "confirmed_ops =
     [CreateBooking ''2026-03-01 10:00:00'' 7 ''anna'' ''Anna'' ''individual'' ''15.03'' ''18:00'',
      UpdateBookingStatus ''2026-03-01 10:05:00'' 1 ''confirmed'' None,
      CreateBooking ''2026-03-02 09:00:00'' 8 ''boris'' ''Boris'' ''individual'' ''15.03'' ''17:30'',
      UpdateBookingStatus ''2026-03-02 09:05:00'' 2 ''confirmed'' None]"

definition demo_db :: database where
  "demo_db = run_ops empty_db confirmed_ops"

definition anna_booking :: booking where
  "anna_booking =
     \<lparr>booking_id = 1, user_id = 7, username = ''anna'', full_name = ''Anna'',
      booking_type = ''individual'', selected_date = ''15.03'', selected_time = ''18:00'',
      status = ''confirmed'', admin_message_id = None,
      reminder_day_sent = 0, reminder_hour_sent = 0,
      created_at = ''2026-03-01 10:00:00'', updated_at = ''2026-03-01 10:05:00''\<rparr>"

definition boris_booking :: booking where
  "boris_booking =
     \<lparr>booking_id = 2, user_id = 8, username = ''boris'', full_name = ''Boris'',
      booking_type = ''individual'', selected_date = ''15.03'', selected_time = ''17:30'',
      status = ''confirmed'', admin_message_id = None,
      reminder_day_sent = 0, reminder_hour_sent = 0,
      created_at = ''2026-03-02 09:00:00'', updated_at = ''2026-03-02 09:05:00''\<rparr>"

definition demo_clock :: "int \<Rightarrow> int \<Rightarrow> int \<Rightarrow> datetime" where
  "demo_clock d h mi =
     \<lparr>year = 2026, month = 3, day = d, hour = h, minute = mi, second = 0, microsecond = 0\<rparr>"

definition demo_env :: env where
  "demo_env = \<lparr>ADMIN_ID = Some ''100'', send_message = (\<lambda>chat k i. True)\<rparr>"


text \<open>
  A customer who picks 15 March, 18 o'clock, and an admin who enters 18:00 for 15 March;
  a chat transport whose every call returns.
\<close>

definition demo_callback :: callback where
  "demo_callback =
     \<lparr>cb_user_id = 9, cb_username = Some ''clara'', cb_full_name = ''Clara'',
      cb_data = ''date_1503_18''\<rparr>"

definition demo_customer_data :: customer_data where
  "demo_customer_data = \<lparr>stored_booking_type = Some ''group''\<rparr>"

definition demo_admin_data :: admin_data where
  "demo_admin_data =
     \<lparr>data_user_id = Some 9, data_username = None, data_full_name = Some ''Clara'',
      data_booking_type = Some ''group'', data_selected_date = ''15.03''\<rparr>"

definition all_ok :: "action \<Rightarrow> bool" where
  "all_ok a = True"

section \<open>Properties of the store\<close>


lemma set_insert_by: "set (insert_by le x xs) = insert x (set xs)"
  by (induction xs) auto

lemma set_order_by: "set (order_by le xs) = set xs"
  by (induction xs) (simp_all add: order_by_def set_insert_by)

text \<open>
  C9. \<^verbatim>\<open>mark_reminder_sent\<close> is idempotent: for every database, booking id and reminder
  type (\<^verbatim>\<open>'day'\<close>, \<^verbatim>\<open>'hour'\<close>, or any other text, for which the method does nothing),
  marking twice gives the database that marking once gives.
\<close>

theorem mark_reminder_sent_idempotent:
  "mark_reminder_sent (mark_reminder_sent db i k) i k = mark_reminder_sent db i k"
  by (simp add: mark_reminder_sent_def comp_def)

lemma is_slot_available_iff:
  "is_slot_available db d t \<longleftrightarrow> \<not> (\<exists>b \<in> set (rows db). occupies b d t)"
  by (auto simp: is_slot_available_def occupies_def filter_empty_conv)

lemma rows_update_booking_status:
  "rows (update_booking_status db ts i s msg) =
     map (\<lambda>b. if booking_id b = i
               then (if msg \<noteq> None \<and> msg \<noteq> Some 0
                     then b\<lparr>status := s, admin_message_id := msg, updated_at := ts\<rparr>
                     else b\<lparr>status := s, updated_at := ts\<rparr>)
               else b) (rows db)"
  by (simp add: update_booking_status_def)

lemma rows_mark_reminder_sent:
  "rows (mark_reminder_sent db i k) =
     map (\<lambda>b. if booking_id b = i
               then (if k = ''day'' then b\<lparr>reminder_day_sent := 1\<rparr>
                     else if k = ''hour'' then b\<lparr>reminder_hour_sent := 1\<rparr> else b)
               else b) (rows db)"
  by (simp add: mark_reminder_sent_def map_idI)

lemma rows_delete_booking:
  "rows (snd (delete_booking db i)) = filter (\<lambda>b. booking_id b \<noteq> i) (rows db)"
  by (simp add: delete_booking_def Let_def)

lemma rows_create_booking:
  "rows (snd (create_booking db ts uid un fn bt d t)) =
     rows db @ [\<lparr>booking_id = lastrowid db, user_id = uid, username = un, full_name = fn,
                 booking_type = bt, selected_date = d, selected_time = t,
                 status = ''pending'', admin_message_id = None,
                 reminder_day_sent = 0, reminder_hour_sent = 0,
                 created_at = ts, updated_at = ts\<rparr>]"
  by (simp add: create_booking_def Let_def)

lemma fst_create_booking: "fst (create_booking db ts uid un fn bt d t) = lastrowid db"
  by (simp add: create_booking_def Let_def)

lemma holds_slot_apply_op:
  assumes "holds_slot db i d t" and "\<not> releases i op"
  shows "holds_slot (apply_op db op) i d t"
proof (cases op)
  case (CreateBooking ts uid un fn bt d' t')
  with assms show ?thesis by (auto simp: holds_slot_def rows_create_booking)
next
  case (UpdateBookingStatus ts j s msg)
  from assms(1) obtain b where b: "b \<in> set (rows db)" "booking_id b = i" "occupies b d t"
    by (auto simp: holds_slot_def)
  let ?f = "\<lambda>b. if booking_id b = j
               then (if msg \<noteq> None \<and> msg \<noteq> Some 0
                     then b\<lparr>status := s, admin_message_id := msg, updated_at := ts\<rparr>
                     else b\<lparr>status := s, updated_at := ts\<rparr>)
               else b"
  have "?f b \<in> set (rows (apply_op db op))"
    using b(1) UpdateBookingStatus by (simp add: rows_update_booking_status)
  moreover have "booking_id (?f b) = i" using b(2) by simp
  moreover have "occupies (?f b) d t"
    using b(2,3) assms(2) UpdateBookingStatus by (auto simp: occupies_def)
  ultimately show ?thesis unfolding holds_slot_def by blast
next
  case (DeleteBooking j)
  with assms show ?thesis by (auto simp: holds_slot_def rows_delete_booking)
next
  case (MarkReminderSent j k)
  from assms(1) obtain b where b: "b \<in> set (rows db)" "booking_id b = i" "occupies b d t"
    by (auto simp: holds_slot_def)
  let ?f = "\<lambda>b. if booking_id b = j
               then (if k = ''day'' then b\<lparr>reminder_day_sent := 1\<rparr>
                     else if k = ''hour'' then b\<lparr>reminder_hour_sent := 1\<rparr> else b)
               else b"
  have "?f b \<in> set (rows (apply_op db op))"
    using b(1) MarkReminderSent by (simp add: rows_mark_reminder_sent)
  moreover have "booking_id (?f b) = i" using b(2) by simp
  moreover have "occupies (?f b) d t" using b(3) by (simp add: occupies_def)
  ultimately show ?thesis unfolding holds_slot_def by blast
qed

lemma holds_slot_run_ops:
  "holds_slot db i d t \<Longrightarrow> \<forall>op \<in> set ops. \<not> releases i op \<Longrightarrow> holds_slot (run_ops db ops) i d t"
  unfolding run_ops_def
  by (induction ops arbitrary: db) (simp_all add: holds_slot_apply_op)

lemma holds_slot_create:
  "create_booking db ts uid un fn bt d t = (i, db1) \<Longrightarrow> holds_slot db1 i d t"
  using rows_create_booking [of db ts uid un fn bt d t] fst_create_booking [of db ts uid un fn bt d t]
  by (auto simp: holds_slot_def occupies_def status_active_def)

lemma holds_slot_unavailable: "holds_slot db i d t \<Longrightarrow> \<not> is_slot_available db d t"
  by (auto simp: holds_slot_def is_slot_available_iff)

lemma available_after_reject:
  "\<not> status_active s \<Longrightarrow> is_slot_available (update_booking_status db ts i s msg) d t \<longleftrightarrow>
     \<not> (\<exists>b \<in> set (rows db). booking_id b \<noteq> i \<and> occupies b d t)"
  by (auto simp: is_slot_available_iff rows_update_booking_status occupies_def)

lemma available_after_delete:
  "is_slot_available (snd (delete_booking db i)) d t \<longleftrightarrow>
     \<not> (\<exists>b \<in> set (rows db). booking_id b \<noteq> i \<and> occupies b d t)"
  by (auto simp: is_slot_available_iff rows_delete_booking)

text \<open>
  C10. Every booking that \<^verbatim>\<open>get_bookings_by_date_range\<close> returns has status
  \<^verbatim>\<open>'pending'\<close> or \<^verbatim>\<open>'confirmed'\<close>, for every range; a row with status \<^verbatim>\<open>'rejected'\<close> is
  never in the result, whatever its date.
\<close>

theorem date_range_only_active:
  "(\<forall>b \<in> set (get_bookings_by_date_range db start_date end_date).
      status b = ''pending'' \<or> status b = ''confirmed'')
   \<and> (\<forall>b \<in> set (rows db). status b = ''rejected'' \<longrightarrow>
        b \<notin> set (get_bookings_by_date_range db start_date end_date))"
  by (auto simp: get_bookings_by_date_range_def set_order_by status_active_def)

lemma sorted_wrt_insert_by:
  assumes trans: "\<And>a b c. le a b \<Longrightarrow> le b c \<Longrightarrow> le a c"
    and total: "\<And>a b. le a b \<or> le b a"
  shows "sorted_wrt le xs \<Longrightarrow> sorted_wrt le (insert_by le x xs)"
proof (induction xs)
  case Nil
  show ?case by simp
next
  case (Cons y ys)
  show ?case
  proof (cases "le x y")
    case True
    have "\<forall>z \<in> set ys. le x z"
    proof
      fix z assume "z \<in> set ys"
      then have "le y z" using Cons.prems by simp
      with True show "le x z" by (rule trans)
    qed
    then show ?thesis using True Cons.prems by simp
  next
    case False
    then have "le y x" using total [of x y] by simp
    moreover have "sorted_wrt le (insert_by le x ys)" using Cons by simp
    ultimately show ?thesis using False Cons.prems by (simp add: set_insert_by)
  qed
qed

lemma sorted_wrt_order_by:
  assumes trans: "\<And>a b c. le a b \<Longrightarrow> le b c \<Longrightarrow> le a c"
    and total: "\<And>a b. le a b \<or> le b a"
  shows "sorted_wrt le (order_by le xs)"
  unfolding order_by_def
  by (induction xs) (simp_all add: sorted_wrt_insert_by [OF trans total])

lemma count_list_insert_by: "count_list (insert_by le x xs) y = count_list (x # xs) y"
  by (induction xs) auto

lemma count_list_order_by: "count_list (order_by le xs) y = count_list xs y"
  unfolding order_by_def by (induction xs) (simp_all add: count_list_insert_by)

lemma priority_created_desc_trans:
  "priority_created_desc a b \<Longrightarrow> priority_created_desc b c \<Longrightarrow> priority_created_desc a c"
  unfolding priority_created_desc_def by force

lemma priority_created_desc_total: "priority_created_desc a b \<or> priority_created_desc b a"
  unfolding priority_created_desc_def by force

text \<open>
  C8. \<^verbatim>\<open>get_all_bookings\<close> returns the rows of the table, each as often as the table has
  it, sorted by the statement's keys: status priority first (pending before confirmed
  before rejected, anything else last), newest first within one status. In particular,
  when the table holds exactly three bookings, inserted in the order rejected, pending,
  confirmed, it returns them in the order pending, confirmed, rejected, whatever their
  creation times.
\<close>

theorem get_all_bookings_order:
  "sorted_wrt priority_created_desc (get_all_bookings db)
   \<and> sorted_wrt (\<lambda>a b. status_priority (status a) \<le> status_priority (status b))
        (get_all_bookings db)
   \<and> status_priority ''pending'' < status_priority ''confirmed''
   \<and> status_priority ''confirmed'' < status_priority ''rejected''
   \<and> (\<forall>b. count_list (get_all_bookings db) b = count_list (rows db) b)
   \<and> (rows db = [b1, b2, b3] \<and> status b1 = ''rejected'' \<and> status b2 = ''pending''
        \<and> status b3 = ''confirmed'' \<longrightarrow> get_all_bookings db = [b2, b3, b1])"
proof (intro conjI allI impI)
  show s: "sorted_wrt priority_created_desc (get_all_bookings db)"
    unfolding get_all_bookings_def
    by (rule sorted_wrt_order_by [OF priority_created_desc_trans priority_created_desc_total])
  show "sorted_wrt (\<lambda>a b. status_priority (status a) \<le> status_priority (status b))
        (get_all_bookings db)"
    by (rule sorted_wrt_mono_rel [OF _ s]) (auto simp: priority_created_desc_def)
  show "status_priority ''pending'' < status_priority ''confirmed''"
    by (simp add: status_priority_def)
  show "status_priority ''confirmed'' < status_priority ''rejected''"
    by (simp add: status_priority_def)
  show "count_list (get_all_bookings db) b = count_list (rows db) b" for b
    by (simp add: get_all_bookings_def count_list_order_by)
  show "get_all_bookings db = [b2, b3, b1]"
    if "rows db = [b1, b2, b3] \<and> status b1 = ''rejected'' \<and> status b2 = ''pending''
        \<and> status b3 = ''confirmed''"
    using that
    by (simp add: get_all_bookings_def order_by_def priority_created_desc_def status_priority_def)
qed


text \<open>
  C1. \<^verbatim>\<open>is_slot_available\<close> is true exactly when no row with status \<^verbatim>\<open>'pending'\<close> or
  \<^verbatim>\<open>'confirmed'\<close> has that date and time. After \<^verbatim>\<open>create_booking\<close> returns id \<open>i\<close> for a
  slot, the slot stays unavailable through every sequence of store calls that neither
  deletes \<open>i\<close> nor takes it out of pending/confirmed. Rejecting or deleting \<open>i\<close> makes
  the slot available again exactly when no other pending or confirmed booking has it.
\<close>

theorem slot_availability:
  "(is_slot_available db d t \<longleftrightarrow>
      \<not> (\<exists>b \<in> set (rows db). selected_date b = d \<and> selected_time b = t
             \<and> (status b = ''pending'' \<or> status b = ''confirmed'')))
   \<and> (create_booking db ts uid un fn bt d t = (i, db1) \<and> (\<forall>op \<in> set ops. \<not> releases i op)
        \<longrightarrow> \<not> is_slot_available (run_ops db1 ops) d t)
   \<and> (is_slot_available (update_booking_status db ts i ''rejected'' msg) d t \<longleftrightarrow>
        \<not> (\<exists>b \<in> set (rows db). booking_id b \<noteq> i \<and> selected_date b = d \<and> selected_time b = t
               \<and> (status b = ''pending'' \<or> status b = ''confirmed'')))
   \<and> (is_slot_available (snd (delete_booking db i)) d t \<longleftrightarrow>
        \<not> (\<exists>b \<in> set (rows db). booking_id b \<noteq> i \<and> selected_date b = d \<and> selected_time b = t
               \<and> (status b = ''pending'' \<or> status b = ''confirmed'')))"
proof (intro conjI impI)
  show "is_slot_available db d t \<longleftrightarrow>
      \<not> (\<exists>b \<in> set (rows db). selected_date b = d \<and> selected_time b = t
             \<and> (status b = ''pending'' \<or> status b = ''confirmed''))"
    by (simp add: is_slot_available_iff occupies_def status_active_def)
next
  assume a: "create_booking db ts uid un fn bt d t = (i, db1) \<and> (\<forall>op \<in> set ops. \<not> releases i op)"
  then have "holds_slot db1 i d t" using holds_slot_create by blast
  with a have "holds_slot (run_ops db1 ops) i d t" using holds_slot_run_ops by blast
  then show "\<not> is_slot_available (run_ops db1 ops) d t" by (rule holds_slot_unavailable)
next
  have "\<not> status_active ''rejected''" by (simp add: status_active_def)
  then show "is_slot_available (update_booking_status db ts i ''rejected'' msg) d t \<longleftrightarrow>
        \<not> (\<exists>b \<in> set (rows db). booking_id b \<noteq> i \<and> selected_date b = d \<and> selected_time b = t
               \<and> (status b = ''pending'' \<or> status b = ''confirmed''))"
    by (simp add: available_after_reject occupies_def status_active_def)
next
  show "is_slot_available (snd (delete_booking db i)) d t \<longleftrightarrow>
        \<not> (\<exists>b \<in> set (rows db). booking_id b \<noteq> i \<and> selected_date b = d \<and> selected_time b = t
               \<and> (status b = ''pending'' \<or> status b = ''confirmed''))"
    by (simp add: available_after_delete occupies_def status_active_def)
qed

lemma create_demo:
  "create_booking empty_db ''2026-03-01 10:00:00'' 7 ''anna'' ''Anna'' ''individual'' ''15.03'' ''18:00''
     = (1, \<lparr>rows = [demo_row], seq = 1\<rparr>)"
  by (simp add: create_booking_def lastrowid_def empty_db_def demo_row_def)

theorem slot_availability_witness:
  "create_booking empty_db ''2026-03-01 10:00:00'' 7 ''anna'' ''Anna'' ''individual'' ''15.03'' ''18:00''
     = (1, \<lparr>rows = [demo_row], seq = 1\<rparr>)
   \<and> \<not> releases 1 (UpdateBookingStatus ''2026-03-02 09:00:00'' 1 ''confirmed'' None)
   \<and> \<not> releases 1 (MarkReminderSent 1 ''day'')
   \<and> \<not> is_slot_available
         (run_ops \<lparr>rows = [demo_row], seq = 1\<rparr>
            [UpdateBookingStatus ''2026-03-02 09:00:00'' 1 ''confirmed'' None,
             MarkReminderSent 1 ''day'']) ''15.03'' ''18:00''
   \<and> is_slot_available empty_db ''15.03'' ''18:00''
   \<and> is_slot_available
         (update_booking_status \<lparr>rows = [demo_row], seq = 1\<rparr> ''2026-03-02 09:00:00'' 1 ''rejected'' None)
         ''15.03'' ''18:00''
   \<and> is_slot_available (snd (delete_booking \<lparr>rows = [demo_row], seq = 1\<rparr> 1)) ''15.03'' ''18:00''"
proof -
  let ?ops = "[UpdateBookingStatus ''2026-03-02 09:00:00'' 1 ''confirmed'' None,
               MarkReminderSent 1 ''day'']"
  let ?db1 = "\<lparr>rows = [demo_row], seq = 1\<rparr>"
  have h1: "\<forall>op \<in> set ?ops. \<not> releases 1 op" by (simp add: status_active_def)
  have t1: "\<not> is_slot_available (run_ops ?db1 ?ops) ''15.03'' ''18:00''"
    using slot_availability [of empty_db "''15.03''" "''18:00''" "''2026-03-01 10:00:00''" 7
        "''anna''" "''Anna''" "''individual''" 1 ?db1 ?ops] create_demo h1 by blast
  have t2: "is_slot_available empty_db ''15.03'' ''18:00''"
    using slot_availability [of empty_db "''15.03''" "''18:00''"] by (simp add: empty_db_def)
  have t3: "is_slot_available
         (update_booking_status ?db1 ''2026-03-02 09:00:00'' 1 ''rejected'' None) ''15.03'' ''18:00''"
    using slot_availability [of ?db1 "''15.03''" "''18:00''" "''2026-03-02 09:00:00''" _ _ _ _ 1 _ _ None]
    by (simp add: demo_row_def)
  have t4: "is_slot_available (snd (delete_booking ?db1 1)) ''15.03'' ''18:00''"
    using slot_availability [of ?db1 "''15.03''" "''18:00''" _ _ _ _ _ 1]
    by (simp add: demo_row_def)
  show ?thesis using create_demo h1 t1 t2 t3 t4 by simp
qed

theorem date_range_only_active_witness:
  "status demo_row = ''pending''
   \<and> get_bookings_by_date_range
        \<lparr>rows = [demo_row, demo_row\<lparr>booking_id := 2, status := ''rejected''\<rparr>], seq = 2\<rparr>
        ''14.03'' ''16.03'' = [demo_row]"
proof -
  let ?db = "\<lparr>rows = [demo_row, demo_row\<lparr>booking_id := 2, status := ''rejected''\<rparr>], seq = 2\<rparr>"
  have r: "get_bookings_by_date_range ?db ''14.03'' ''16.03'' = [demo_row]"
    by (simp add: get_bookings_by_date_range_def order_by_def demo_row_def status_active_def)
  have "\<forall>b \<in> set (get_bookings_by_date_range ?db ''14.03'' ''16.03'').
      status b = ''pending'' \<or> status b = ''confirmed''"
    using date_range_only_active [of ?db "''14.03''" "''16.03''"] by blast
  then have "status demo_row = ''pending''" by (simp add: r demo_row_def)
  then show ?thesis using r by simp
qed

theorem get_all_bookings_order_witness:
  "map status (rows (run_ops empty_db three_ops)) = [''rejected'', ''pending'', ''confirmed'']
   \<and> map status (get_all_bookings (run_ops empty_db three_ops))
        = [''pending'', ''confirmed'', ''rejected'']
   \<and> map booking_id (get_all_bookings (run_ops empty_db three_ops)) = [2, 3, 1]"
proof -
  obtain b1 b2 b3 where r: "rows (run_ops empty_db three_ops) = [b1, b2, b3]"
    and s: "status b1 = ''rejected''" "status b2 = ''pending''" "status b3 = ''confirmed''"
    and i: "booking_id b1 = 1" "booking_id b2 = 2" "booking_id b3 = 3"
    by (simp add: run_ops_def three_ops_def empty_db_def create_booking_def lastrowid_def
        update_booking_status_def)
  have "get_all_bookings (run_ops empty_db three_ops) = [b2, b3, b1]"
    using get_all_bookings_order [of "run_ops empty_db three_ops" b1 b2 b3] r s by blast
  with r s i show ?thesis by simp
qed
section \<open>The scheduler: what a pass does\<close>

lemma remind_booking_skip:
  "selected_date b < strftime_dm now \<Longrightarrow> remind_booking e now db b = (db, [])"
  by (simp add: remind_booking_def)

lemma rows_remind_booking:
  "rows (fst (remind_booking e now db b)) = map (marked now b) (rows db)"
  by (auto simp: remind_booking_def marked_def day_due_def hour_due_def hours_until_def Let_def
      rows_mark_reminder_sent map_idI split: sum.splits)

lemma seq_remind_booking: "seq (fst (remind_booking e now db b)) = seq db"
  by (auto simp: remind_booking_def Let_def mark_reminder_sent_def split: sum.splits)

lemma snd_remind_booking: "snd (remind_booking e now db b) = reminder_events e now b"
  by (auto simp: remind_booking_def reminder_events_def Let_def split: sum.splits)

lemma reminder_events_eq:
  "reminder_events e now b =
     (if selected_date b < strftime_dm now then []
      else (case hours_until now b of
              None \<Rightarrow>
                if length (str_split (CHR ''.'') (selected_date b)) \<noteq> 2
                   \<or> length (str_split (CHR '':'') (selected_time b)) \<noteq> 2
                then [] else [ReminderError (booking_id b)]
            | Some h \<Rightarrow>
                (if day_due now b then [send_day_reminder e b]
                 else if hour_due now b then [send_hour_reminder e b] else [])
                @ (if admin_due now b then send_admin_reminder e b else [])))"
  by (auto simp: remind_booking_def reminder_events_def day_due_def hour_due_def admin_due_def
      hours_until_def Let_def split: sum.splits)

lemma rows_scan_bookings:
  "rows (fst (scan_bookings e now bs db)) = map (fold (marked now) bs) (rows db)"
  by (induction bs arbitrary: db) (simp_all add: Let_def rows_remind_booking comp_def)

lemma seq_scan_bookings: "seq (fst (scan_bookings e now bs db)) = seq db"
  by (induction bs arbitrary: db) (simp_all add: Let_def seq_remind_booking)

lemma snd_scan_bookings:
  "snd (scan_bookings e now bs db) = concat (map (reminder_events e now) bs)"
  by (induction bs arbitrary: db) (simp_all add: Let_def snd_remind_booking)

lemma flags_only_refl: "flags_only r r"
  by (simp add: flags_only_def)

lemma flags_only_trans: "flags_only a b \<Longrightarrow> flags_only b c \<Longrightarrow> flags_only a c"
  by (simp add: flags_only_def)

lemma flags_only_marked: "flags_only r (marked now b r)"
  by (simp add: flags_only_def marked_def)

lemma flags_only_fold: "flags_only r (fold (marked now) bs r)"
proof (induction bs arbitrary: r)
  case Nil
  show ?case by (simp add: flags_only_refl)
next
  case (Cons b bs)
  have "flags_only r (marked now b r)" by (rule flags_only_marked)
  moreover have "flags_only (marked now b r) (fold (marked now) bs (marked now b r))"
    by (rule Cons.IH)
  ultimately have "flags_only r (fold (marked now) bs (marked now b r))"
    by (rule flags_only_trans)
  then show ?case by simp
qed

lemma booking_id_marked: "booking_id (marked now b r) = booking_id r"
  by (simp add: marked_def)

lemma fold_marked_other:
  "\<forall>x \<in> set bs. booking_id x \<noteq> booking_id r \<Longrightarrow> fold (marked now) bs r = r"
  by (induction bs arbitrary: r) (simp_all add: marked_def)

lemma fold_marked_self:
  "distinct (map booking_id bs) \<Longrightarrow> b \<in> set bs \<Longrightarrow> booking_id r = booking_id b
     \<Longrightarrow> fold (marked now) bs r = marked now b r"
proof (induction bs arbitrary: r)
  case Nil
  then show ?case by simp
next
  case (Cons x bs)
  show ?case
  proof (cases "x = b")
    case True
    have "booking_id b \<notin> booking_id ` set bs" using Cons.prems True by simp
    then have "\<forall>y \<in> set bs. booking_id y \<noteq> booking_id (marked now b r)"
      unfolding booking_id_marked Cons.prems(3) by (metis imageI)
    then show ?thesis using True by (simp add: fold_marked_other)
  next
    case False
    then have b: "b \<in> set bs" using Cons.prems by simp
    then have "booking_id x \<noteq> booking_id b" using Cons.prems by (metis distinct.simps(2) imageI list.simps(9) list.set_map)
    then have "marked now x r = r" using Cons.prems by (simp add: marked_def)
    then show ?thesis using Cons.IH [of r] Cons.prems b by simp
  qed
qed

lemma distinct_map_insert_by:
  "distinct (map f (insert_by le x xs)) \<longleftrightarrow> f x \<notin> f ` set xs \<and> distinct (map f xs)"
  by (induction xs) (auto simp: set_insert_by)

lemma distinct_map_order_by:
  "distinct (map f (order_by le xs)) \<longleftrightarrow> distinct (map f xs)"
  unfolding order_by_def
proof (induction xs)
  case Nil
  show ?case by simp
next
  case (Cons x xs)
  have "set (foldr (insert_by le) xs []) = set xs"
    using set_order_by [of le xs] by (simp add: order_by_def)
  then show ?case using Cons by (simp add: distinct_map_insert_by)
qed

lemma set_get_confirmed_bookings:
  "set (get_confirmed_bookings db) = {b \<in> set (rows db). status b = ''confirmed''}"
  by (simp add: get_confirmed_bookings_def set_order_by)

lemma distinct_get_confirmed_bookings:
  "distinct (map booking_id (rows db)) \<Longrightarrow> distinct (map booking_id (get_confirmed_bookings db))"
  by (simp add: get_confirmed_bookings_def distinct_map_order_by distinct_map_filter)

lemma same_id_same_row:
  "distinct (map booking_id xs) \<Longrightarrow> a \<in> set xs \<Longrightarrow> b \<in> set xs
     \<Longrightarrow> booking_id a = booking_id b \<Longrightarrow> a = b"
  by (auto simp: distinct_map inj_on_def)

text \<open>What a pass does to each row, when ids are unique.\<close>

lemma fold_marked_row:
  assumes "distinct (map booking_id (rows db))" and "r \<in> set (rows db)"
  shows "fold (marked now) (get_confirmed_bookings db) r
           = (if status r = ''confirmed'' then marked now r r else r)"
proof (cases "status r = ''confirmed''")
  case True
  then have "r \<in> set (get_confirmed_bookings db)"
    using assms by (simp add: set_get_confirmed_bookings)
  then show ?thesis
    using True fold_marked_self [OF distinct_get_confirmed_bookings [OF assms(1)], of r r now]
    by simp
next
  case False
  have "\<forall>x \<in> set (get_confirmed_bookings db). booking_id x \<noteq> booking_id r"
  proof
    fix x assume x: "x \<in> set (get_confirmed_bookings db)"
    then have "x \<in> set (rows db)" "status x = ''confirmed''"
      by (simp_all add: set_get_confirmed_bookings)
    then show "booking_id x \<noteq> booking_id r"
      using same_id_same_row [OF assms(1), of x r] assms(2) False by auto
  qed
  then show ?thesis using False by (simp add: fold_marked_other)
qed

lemma rows_check_reminders_tick:
  assumes "distinct (map booking_id (rows db))"
  shows "rows (fst (check_reminders_tick e now db))
           = map (\<lambda>r. if status r = ''confirmed'' then marked now r r else r) (rows db)"
  unfolding check_reminders_tick_def rows_scan_bookings
  using fold_marked_row [OF assms] by simp

lemma about_reminder_events:
  "filter (about i) (reminder_events e now b)
     = (if booking_id b = i then reminder_events e now b else [])"
  by (auto simp: reminder_events_eq about_def send_day_reminder_def send_hour_reminder_def
      send_admin_reminder_def split: option.splits sum.splits)

lemma concat_only:
  "distinct (map f bs) \<Longrightarrow> b \<in> set bs
     \<Longrightarrow> concat (map (\<lambda>x. if f x = f b then g x else []) bs) = g b"
proof (induction bs)
  case Nil
  then show ?case by simp
next
  case (Cons x bs)
  show ?case
  proof (cases "x = b")
    case True
    have "f b \<notin> f ` set bs" using Cons.prems True by simp
    then have "\<forall>y \<in> set bs. f y \<noteq> f b" by (metis imageI)
    then have "concat (map (\<lambda>x. if f x = f b then g x else []) bs) = []"
      by (induction bs) simp_all
    then show ?thesis using True by simp
  next
    case False
    then have "b \<in> set bs" using Cons.prems by simp
    moreover from this have "f x \<noteq> f b" using Cons.prems by (metis distinct.simps(2) imageI list.simps(9) list.set_map)
    ultimately show ?thesis using Cons by simp
  qed
qed

lemma concat_none:
  "\<forall>x \<in> set bs. f x \<noteq> i \<Longrightarrow> concat (map (\<lambda>x. if f x = i then g x else []) bs) = []"
  by (induction bs) simp_all

lemma about_check_reminders_tick:
  assumes "distinct (map booking_id (rows db))" and "b \<in> set (rows db)"
  shows "filter (about (booking_id b)) (snd (check_reminders_tick e now db))
           = (if status b = ''confirmed'' then reminder_events e now b else [])"
proof -
  let ?bs = "get_confirmed_bookings db"
  have eq: "filter (about (booking_id b)) (snd (check_reminders_tick e now db))
          = concat (map (\<lambda>x. if booking_id x = booking_id b then reminder_events e now x else []) ?bs)"
    by (simp add: check_reminders_tick_def snd_scan_bookings filter_concat comp_def
        about_reminder_events)
  show ?thesis
  proof (cases "status b = ''confirmed''")
    case True
    then have "b \<in> set ?bs" using assms by (simp add: set_get_confirmed_bookings)
    then show ?thesis
      using True eq concat_only [OF distinct_get_confirmed_bookings [OF assms(1)],
          of b "reminder_events e now"]
      by simp
  next
    case False
    have "\<forall>x \<in> set ?bs. booking_id x \<noteq> booking_id b"
    proof
      fix x assume x: "x \<in> set ?bs"
      then have "x \<in> set (rows db)" "status x = ''confirmed''"
        by (simp_all add: set_get_confirmed_bookings)
      then show "booking_id x \<noteq> booking_id b"
        using same_id_same_row [OF assms(1), of x b] assms(2) False by auto
    qed
    then show ?thesis using False eq by (simp add: concat_none)
  qed
qed

lemma find_map_row:
  "distinct (map booking_id xs) \<Longrightarrow> b \<in> set xs \<Longrightarrow> (\<And>r. booking_id (g r) = booking_id r)
     \<Longrightarrow> find (\<lambda>r. booking_id r = booking_id b) (map g xs) = Some (g b)"
proof (induction xs)
  case Nil
  then show ?case by simp
next
  case (Cons x xs)
  show ?case
  proof (cases "x = b")
    case True
    then show ?thesis using Cons.prems(3) by simp
  next
    case False
    then have b: "b \<in> set xs" using Cons.prems by simp
    then have "booking_id x \<noteq> booking_id b" using Cons.prems by (metis distinct.simps(2) imageI list.simps(9) list.set_map)
    then show ?thesis using Cons.IH [OF _ b Cons.prems(3)] Cons.prems(1,3) by simp
  qed
qed

lemma attempts_about: "attempts k i (filter (about i) evs) = attempts k i evs"
  by (induction evs) (auto simp: attempts_def about_def split: event.splits)

lemma booking_id_fold_marked: "booking_id (fold (marked now) bs r) = booking_id r"
  using flags_only_fold [of r now bs] by (simp add: flags_only_def)

lemma ids_check_reminders_tick:
  "map booking_id (rows (fst (check_reminders_tick e now db))) = map booking_id (rows db)"
  by (simp add: check_reminders_tick_def rows_scan_bookings comp_def booking_id_fold_marked)

lemma seq_check_reminders_tick: "seq (fst (check_reminders_tick e now db)) = seq db"
  by (simp add: check_reminders_tick_def seq_scan_bookings)

lemma frame_check_reminders_tick:
  "list_all2 flags_only (rows db) (rows (fst (check_reminders_tick e now db)))"
  by (simp add: check_reminders_tick_def rows_scan_bookings list_all2_map2 list_all2_same
      flags_only_fold)

lemma get_booking_check_reminders_tick:
  assumes "distinct (map booking_id (rows db))" and "b \<in> set (rows db)"
  shows "get_booking (fst (check_reminders_tick e now db)) (booking_id b)
           = Some (if status b = ''confirmed'' then marked now b b else b)"
  unfolding get_booking_def rows_check_reminders_tick [OF assms(1)]
  using find_map_row [OF assms(1,2),
      of "\<lambda>r. if status r = ''confirmed'' then marked now r r else r"]
  by (simp add: booking_id_marked)



lemma attempts_send_day [simp]:
  "attempts k i [send_day_reminder e b] = (if k = Day \<and> i = booking_id b then 1 else 0)"
  by (auto simp: attempts_def send_day_reminder_def)

lemma attempts_send_hour [simp]:
  "attempts k i [send_hour_reminder e b] = (if k = Hour \<and> i = booking_id b then 1 else 0)"
  by (auto simp: attempts_def send_hour_reminder_def)



lemma attempts_Nil: "attempts k i [] = 0"
  by (simp add: attempts_def)

text \<open>
  C6. A pass of the scheduler, and any number of passes, leaves the table with the same
  rows in the same order, each differing from what it was at most in the two reminder
  flags: ids, requester fields, type, date, time, status, message id and timestamps are
  unchanged, no id is added or removed, and the id counter is unchanged.
\<close>

theorem scan_frame:
  "list_all2 flags_only (rows db) (rows (fst (check_reminders passes db)))
   \<and> map booking_id (rows (fst (check_reminders passes db))) = map booking_id (rows db)
   \<and> seq (fst (check_reminders passes db)) = seq db
   \<and> list_all2 flags_only (rows db) (rows (fst (check_reminders_tick e now db)))
   \<and> map booking_id (rows (fst (check_reminders_tick e now db))) = map booking_id (rows db)
   \<and> seq (fst (check_reminders_tick e now db)) = seq db"
proof -
  have "list_all2 flags_only (rows db) (rows (fst (check_reminders passes db)))
     \<and> map booking_id (rows (fst (check_reminders passes db))) = map booking_id (rows db)
     \<and> seq (fst (check_reminders passes db)) = seq db"
  proof (induction passes arbitrary: db)
    case Nil
    show ?case by (simp add: list_all2_same flags_only_refl)
  next
    case (Cons p passes)
    obtain e' now' where p: "p = (e', now')" by (cases p)
    let ?db1 = "fst (check_reminders_tick e' now' db)"
    have 1: "list_all2 flags_only (rows db) (rows ?db1)"
      by (rule frame_check_reminders_tick)
    have 2: "list_all2 flags_only (rows ?db1) (rows (fst (check_reminders passes ?db1)))"
      using Cons.IH [of ?db1] by simp
    have "list_all2 flags_only (rows db) (rows (fst (check_reminders passes ?db1)))"
      using list_all2_trans [of flags_only flags_only flags_only, OF _ 1 2] flags_only_trans
      by blast
    then show ?case
      using Cons.IH [of ?db1]
      by (simp add: p Let_def ids_check_reminders_tick seq_check_reminders_tick)
  qed
  then show ?thesis
    by (simp add: frame_check_reminders_tick ids_check_reminders_tick seq_check_reminders_tick)
qed

text \<open>
  C5. A booking whose date text is below today's \<^verbatim>\<open>%d.%m\<close> text is skipped: the loop body
  returns at once, the pass makes no day, hour or admin send about it and logs no error
  for it, and its row is unchanged, whatever its flags. Ids are unique, as the primary
  key makes them.
\<close>

theorem past_booking_not_reminded:
  assumes "distinct (map booking_id (rows db))" and "b \<in> set (rows db)"
    and "selected_date b < strftime_dm now"
  shows "remind_booking e now db b = (db, [])
    \<and> filter (about (booking_id b)) (snd (check_reminders_tick e now db)) = []
    \<and> attempts Day (booking_id b) (snd (check_reminders_tick e now db)) = 0
    \<and> attempts Hour (booking_id b) (snd (check_reminders_tick e now db)) = 0
    \<and> attempts Admin (booking_id b) (snd (check_reminders_tick e now db)) = 0
    \<and> get_booking (fst (check_reminders_tick e now db)) (booking_id b) = Some b"
proof -
  have ev: "reminder_events e now b = []"
    using assms(3) by (simp add: reminder_events_eq)
  have f: "filter (about (booking_id b)) (snd (check_reminders_tick e now db)) = []"
    using about_check_reminders_tick [OF assms(1,2), of e now] ev by simp
  have a: "attempts k (booking_id b) (snd (check_reminders_tick e now db)) = 0" for k
    using attempts_about [of k "booking_id b" "snd (check_reminders_tick e now db)"] f
    by (simp add: attempts_Nil)
  have m: "marked now b b = b"
    using assms(3) by (simp add: marked_def day_due_def hour_due_def)
  have g: "get_booking (fst (check_reminders_tick e now db)) (booking_id b) = Some b"
    using get_booking_check_reminders_tick [OF assms(1,2), of e now] m by simp
  show ?thesis using remind_booking_skip [OF assms(3)] f a g by simp
qed


lemma rows_demo_db: "rows demo_db = [anna_booking, boris_booking]"
  by (simp add: demo_db_def confirmed_ops_def run_ops_def empty_db_def create_booking_def
      lastrowid_def update_booking_status_def anna_booking_def boris_booking_def)

lemma confirmed_demo_db: "get_confirmed_bookings demo_db = [boris_booking, anna_booking]"
  by (simp add: get_confirmed_bookings_def rows_demo_db order_by_def date_time_asc_def
      anna_booking_def boris_booking_def)










lemma distinct_demo_db: "distinct (map booking_id (rows demo_db))"
  by (simp add: rows_demo_db anna_booking_def boris_booking_def)

lemma anna_in_demo_db: "anna_booking \<in> set (rows demo_db)"
  by (simp add: rows_demo_db)







theorem past_booking_not_reminded_witness:
  "selected_date anna_booking < strftime_dm (demo_clock 16 17 0)
   \<and> filter (about (booking_id anna_booking))
        (snd (check_reminders_tick demo_env (demo_clock 16 17 0) demo_db)) = []
   \<and> attempts Admin (booking_id anna_booking)
        (snd (check_reminders_tick demo_env (demo_clock 16 17 0) demo_db)) = 0
   \<and> get_booking (fst (check_reminders_tick demo_env (demo_clock 16 17 0) demo_db))
        (booking_id anna_booking) = Some anna_booking"
proof -
  have p: "selected_date anna_booking < strftime_dm (demo_clock 16 17 0)"
    by (simp add: anna_booking_def strftime_dm_def two_digits_def demo_clock_def)
  show ?thesis
    using past_booking_not_reminded [OF distinct_demo_db anna_in_demo_db p,
        where e = demo_env] p
    by simp
qed




section \<open>The handlers: a taken slot\<close>

text \<open>
  C7. When \<^verbatim>\<open>is_slot_available\<close> is false for the slot that the callback data names,
  \<^verbatim>\<open>process_booking\<close> leaves the table as it was and answers first with the slot-taken
  alert, and that alert is all it does when it is delivered. When it is false for the
  stored date and the time the admin typed, \<^verbatim>\<open>process_admin_time\<close> leaves the table as it
  was and answers first with the slot-taken message for that date and time; when it is
  delivered, the handler does nothing else to the chat and clears its conversation.
\<close>

theorem unavailable_slot_refused:
  "(str_split (CHR ''_'') (cb_data cb) = p0 # p1 # p2 # ps
      \<and> \<not> is_slot_available db (take 2 p1 @ ''.'' @ drop 2 p1) (p2 @ '':00'')
     \<longrightarrow> fst (process_booking e ok ts db st cb) = db
         \<and> hd (snd (snd (process_booking e ok ts db st cb))) = AnswerSlotTaken
         \<and> (ok AnswerSlotTaken
              \<longrightarrow> process_booking e ok ts db st cb = (db, Some st, [AnswerSlotTaken])))
   \<and> (length (str_strip t) = 5 \<and> str_strip t ! 2 = CHR '':''
      \<and> \<not> is_slot_available db (data_selected_date ad) (str_strip t)
     \<longrightarrow> fst (process_admin_time ok ts ts' db ad (Some t)) = db
         \<and> hd (snd (snd (process_admin_time ok ts ts' db ad (Some t))))
             = MessageSlotTaken (data_selected_date ad) (str_strip t)
         \<and> (ok (MessageSlotTaken (data_selected_date ad) (str_strip t))
              \<longrightarrow> process_admin_time ok ts ts' db ad (Some t)
                    = (db, None, [MessageSlotTaken (data_selected_date ad) (str_strip t)])))"
  by (simp add: process_booking_def process_admin_time_def Let_def booking_failed_def
      admin_failed_def)

theorem unavailable_slot_refused_witness:
  "\<not> is_slot_available demo_db ''15.03'' ''18:00''
   \<and> process_booking demo_env all_ok ''2026-03-10 12:00:00'' demo_db demo_customer_data
        demo_callback
       = (demo_db, Some demo_customer_data, [AnswerSlotTaken])
   \<and> process_admin_time all_ok ''2026-03-10 12:00:00'' ''2026-03-10 12:00:01'' demo_db
        demo_admin_data (Some '' 18:00 '')
       = (demo_db, None, [MessageSlotTaken ''15.03'' ''18:00''])"
proof -
  have s: "str_split (CHR ''_'') (cb_data demo_callback) = [''date'', ''1503'', ''18'']"
    by (simp add: demo_callback_def)
  have t: "str_strip '' 18:00 '' = ''18:00''"
    by (simp add: str_strip_def is_space_def)
  have u: "\<not> is_slot_available demo_db ''15.03'' ''18:00''"
    by (simp add: is_slot_available_def rows_demo_db anna_booking_def boris_booking_def
        status_active_def)
  have d: "data_selected_date demo_admin_data = ''15.03''"
    by (simp add: demo_admin_data_def)
  show ?thesis
    using unavailable_slot_refused [where cb = demo_callback and ?p0.0 = "''date''"
        and ?p1.0 = "''1503''" and ?p2.0 = "''18''" and ps = "[]" and db = demo_db
        and e = demo_env and ok = all_ok and ts = "''2026-03-10 12:00:00''"
        and ts' = "''2026-03-10 12:00:01''" and st = demo_customer_data
        and t = "'' 18:00 ''" and ad = demo_admin_data]
      s t u d
    by (simp add: all_ok_def)
qed


end
